theory Spec2Isabelle
  imports Main "HOL-Library.AList"
begin

section \<open>Flow graph, sessions and outbound messages\<close>

text \<open>
  The chatbot of \<^verbatim>\<open>src/lib/messenger.ts\<close> (classes \<^verbatim>\<open>MessengerClient\<close> and
  \<^verbatim>\<open>Chatbot\<close>). JavaScript strings are lists of characters; \<^verbatim>\<open>substring(0, n)\<close> is
  \<open>take n\<close> and \<^verbatim>\<open>.length\<close> is \<open>length\<close>. An optional field (\<^verbatim>\<open>text?: string\<close>) is an
  \<open>option\<close>; a string is falsy when it is absent or empty. Timestamps are milliseconds
  (\<^verbatim>\<open>Date.now()\<close>, \<^verbatim>\<open>Date.getTime()\<close>), as \<open>int\<close>.
\<close>

datatype error =
    TypeError
  | InvalidFlow string
  | RecipientRequired
  | MessengerApiError
  | TemplateError string

text \<open>\<^verbatim>\<open>interface ChatbotNode\<close>. The flow is parsed JSON, so the item list of a node may be
  missing (\<^verbatim>\<open>node.items?.[0]\<close>) and an entry of a button array may be \<^verbatim>\<open>null\<close>.\<close>

record FlowButton =
  btn_id :: string
  btn_text :: string

record FlowItem =
  item_id :: string
  item_type :: string
  item_text :: "string option"
  item_video_url :: "string option"
  item_number :: "string option"
  item_link :: "string option"
  item_buttons :: "FlowButton option list option"

record ChatbotNode =
  node_id :: string
  node_type :: string
  node_label :: string
  node_items :: "FlowItem list option"

record Edge =
  edge_source :: string
  edge_target :: string

text \<open>\<^verbatim>\<open>this.flow\<close> after \<^verbatim>\<open>validateFlow\<close>: \<^verbatim>\<open>flow.messages\<close> and \<^verbatim>\<open>flow.elements.edges\<close>.\<close>

record Flow =
  messages :: "ChatbotNode list"
  edges :: "Edge list"

text \<open>The parsed document before validation: a collection may be absent (or falsy), a
  value that is not an array, or an array; \<^verbatim>\<open>elements\<close> itself may be absent.\<close>

datatype 'a json_field = Absent | NotArray | Array "'a list"

record RawFlow =
  raw_messages :: "ChatbotNode json_field"
  raw_elements :: "Edge json_field option"

record UserSession =
  currentNode :: string
  lastInteraction :: int
  messageCount :: int
  session_context :: "(string \<times> string) list"

text \<open>\<^verbatim>\<open>Map<string, UserSession>\<close>: the entries in insertion order.\<close>

type_synonym sessions = "(string \<times> UserSession) list"

text \<open>\<^verbatim>\<open>interface MessengerButton\<close>, \<^verbatim>\<open>MessengerElement\<close>, \<^verbatim>\<open>MessengerTemplate\<close>.\<close>

record MessengerButton =
  mb_type :: string
  mb_title :: string
  mb_url :: "string option"
  mb_payload :: "string option"
  mb_phone_number :: "string option"

record DefaultAction =
  da_type :: string
  da_url :: string

record MessengerElement =
  el_title :: string
  el_subtitle :: "string option"
  el_image_url :: "string option"
  el_default_action :: "DefaultAction option"
  el_buttons :: "MessengerButton list option"

record QuickReply =
  qr_content_type :: string
  qr_title :: string
  qr_payload :: "string option"

record Attachment =
  att_type :: string
  att_url :: "string option"

record MessengerTemplate =
  template_type :: string
  tpl_elements :: "MessengerElement list option"
  tpl_text :: "string option"
  tpl_buttons :: "MessengerButton list option"
  tpl_quick_replies :: "QuickReply list option"
  tpl_attachment :: "Attachment option"

text \<open>The \<^verbatim>\<open>message\<close> object handed to \<^verbatim>\<open>sendMessage\<close>: a sender action, a text (with
  optional quick replies), or an attachment.\<close>

datatype OutAttachment =
    GenericPayload "MessengerElement list"
  | ButtonPayload string "MessengerButton list"
  | MediaAttachment Attachment

datatype OutMessage =
    SenderAction string
  | TextMessage string "QuickReply list option"
  | AttachmentMessage OutAttachment

text \<open>The calls of \<^verbatim>\<open>sendMessage\<close>, oldest first: recipient and message.\<close>

type_synonym outbox = "(string \<times> OutMessage) list"

text \<open>The inbound event as \<^verbatim>\<open>handleMessage\<close> reads it: \<^verbatim>\<open>message.postback.payload\<close> and
  \<^verbatim>\<open>message.text\<close>.\<close>

record InMessage =
  postback :: "string option"
  msg_text :: "string option"

record ChatState =
  userSessions :: sessions
  sent :: outbox

section \<open>JavaScript helpers\<close>

definition truthy :: "string option \<Rightarrow> bool" where
  "truthy v = (case v of None \<Rightarrow> False | Some s \<Rightarrow> s \<noteq> [])"

text \<open>\<^verbatim>\<open>v || d\<close> on an optional string.\<close>

definition orElse :: "string option \<Rightarrow> string \<Rightarrow> string" where
  "orElse v d = (if truthy v then the v else d)"

text \<open>\<^verbatim>\<open>String.prototype.toLowerCase\<close> belongs to the JavaScript platform, not to the
  repository. The functions that call it take it as their first argument
  \<open>toLowerCase\<close>, and every statement about them holds for whatever function that is.\<close>

type_synonym lowercase = "string \<Rightarrow> string"

text \<open>\<^verbatim>\<open>xs[0]\<close>: undefined on an empty array.\<close>

definition first :: "'a list \<Rightarrow> 'a option" where
  "first xs = (case xs of [] \<Rightarrow> None | x # _ \<Rightarrow> Some x)"

section \<open>Flow Graph Store\<close>

definition validateFlow :: "RawFlow \<Rightarrow> error option" where
  "validateFlow raw =
     (case raw_messages raw of
        Absent \<Rightarrow> Some (InvalidFlow ''Invalid flow: messages array is required'')
      | NotArray \<Rightarrow> Some (InvalidFlow ''Invalid flow: messages array is required'')
      | Array ms \<Rightarrow>
          (case raw_elements raw of
             None \<Rightarrow> Some (InvalidFlow ''Invalid flow: edges array is required'')
           | Some Absent \<Rightarrow> Some (InvalidFlow ''Invalid flow: edges array is required'')
           | Some NotArray \<Rightarrow> Some (InvalidFlow ''Invalid flow: edges array is required'')
           | Some (Array es) \<Rightarrow> None))"

text \<open>\<^verbatim>\<open>loadFlow\<close>: the parsed document is kept when validation passes, and the error is
  thrown again otherwise.\<close>

definition loadFlow :: "RawFlow \<Rightarrow> error + Flow" where
  "loadFlow raw =
     (case validateFlow raw of
        Some e \<Rightarrow> Inl e
      | None \<Rightarrow>
          Inr \<lparr>messages = (case raw_messages raw of Array ms \<Rightarrow> ms | _ \<Rightarrow> []),
               edges = (case raw_elements raw of Some (Array es) \<Rightarrow> es | _ \<Rightarrow> [])\<rparr>)"

definition findNodeById :: "Flow \<Rightarrow> string \<Rightarrow> ChatbotNode option" where
  "findNodeById flow i = find (\<lambda>message. node_id message = i) (messages flow)"

definition findNextNodes :: "Flow \<Rightarrow> string \<Rightarrow> string list" where
  "findNextNodes flow currentNodeId =
     map edge_target (filter (\<lambda>edge. edge_source edge = currentNodeId) (edges flow))"

section \<open>Session Registry and Rate Limiter\<close>

definition sessionTimeout :: int where
  "sessionTimeout = 30 * 60 * 1000"

definition maxMessagesPerMinute :: int where
  "maxMessagesPerMinute = 20"

text \<open>\<^verbatim>\<open>getUserSession\<close>; \<open>now\<close> is the clock read by \<^verbatim>\<open>new Date()\<close>. Reading
  \<^verbatim>\<open>this.flow.messages[0].id\<close> of an empty list is a TypeError.\<close>

definition getUserSession :: "Flow \<Rightarrow> int \<Rightarrow> string \<Rightarrow> sessions \<Rightarrow> error + (UserSession \<times> sessions)" where
  "getUserSession flow now senderId us =
     (case map_of us senderId of
        Some session \<Rightarrow> Inr (session, us)
      | None \<Rightarrow>
          (case messages flow of
             [] \<Rightarrow> Inl TypeError
           | m # _ \<Rightarrow>
               (let session = \<lparr>currentNode = node_id m, lastInteraction = now,
                               messageCount = 0, session_context = []\<rparr>
                in Inr (session, AList.update senderId session us))))"

definition updateSessionActivity :: "int \<Rightarrow> UserSession \<Rightarrow> UserSession" where
  "updateSessionActivity now session =
     session\<lparr>lastInteraction := now, messageCount := messageCount session + 1\<rparr>"

text \<open>One run of the interval callback of \<^verbatim>\<open>startSessionCleanup\<close>: the loop over the
  entries, deleting from the map.\<close>

fun cleanupLoop :: "int \<Rightarrow> sessions \<Rightarrow> sessions \<Rightarrow> sessions" where
  "cleanupLoop now [] us = us"
| "cleanupLoop now ((senderId, session) # rest) us =
     cleanupLoop now rest
       (if now - lastInteraction session > sessionTimeout then AList.delete senderId us else us)"

definition sessionCleanup :: "int \<Rightarrow> sessions \<Rightarrow> sessions" where
  "sessionCleanup now us = cleanupLoop now us us"

text \<open>\<^verbatim>\<open>checkRateLimit\<close>: the answer and the session, whose count may have been reset.\<close>

definition checkRateLimit :: "int \<Rightarrow> UserSession \<Rightarrow> bool \<times> UserSession" where
  "checkRateLimit now session =
     (let oneMinuteAgo = now - 60 * 1000;
          session' = (if lastInteraction session < oneMinuteAgo
                      then session\<lparr>messageCount := 0\<rparr> else session)
      in (messageCount session' < maxMessagesPerMinute, session'))"

section \<open>Message Template Builder\<close>

definition textTemplate :: "string \<Rightarrow> MessengerTemplate" where
  "textTemplate t =
     \<lparr>template_type = ''text'', tpl_elements = None, tpl_text = Some t, tpl_buttons = None,
      tpl_quick_replies = None, tpl_attachment = None\<rparr>"

text \<open>The button template \<^verbatim>\<open>{template_type: 'button', text: ..., buttons: ...}\<close>.\<close>

definition buttonTemplate :: "string \<Rightarrow> MessengerButton list \<Rightarrow> MessengerTemplate" where
  "buttonTemplate t btns =
     \<lparr>template_type = ''button'', tpl_elements = None, tpl_text = Some t,
      tpl_buttons = Some btns, tpl_quick_replies = None, tpl_attachment = None\<rparr>"

text \<open>\<^verbatim>\<open>{type: 'postback', title: button.text, payload: button.id}\<close>.\<close>

definition postbackOf :: "FlowButton \<Rightarrow> MessengerButton" where
  "postbackOf button =
     \<lparr>mb_type = ''postback'', mb_title = btn_text button, mb_url = None,
      mb_payload = Some (btn_id button), mb_phone_number = None\<rparr>"

text \<open>\<^verbatim>\<open>item.buttons.map(button => ...)\<close>; reading a property of a \<^verbatim>\<open>null\<close> entry is a
  TypeError.\<close>

fun postbackButtons :: "FlowButton option list \<Rightarrow> error + MessengerButton list" where
  "postbackButtons [] = Inr []"
| "postbackButtons (None # bs) = Inl TypeError"
| "postbackButtons (Some button # bs) =
     (case postbackButtons bs of
        Inl e \<Rightarrow> Inl e
      | Inr rest \<Rightarrow> Inr (postbackOf button # rest))"

definition unknownTypeTemplate :: MessengerTemplate where
  "unknownTypeTemplate =
     textTemplate (''Sorry, I don'' @ [CHR 0x27] @ ''t understand that message type.'')"

text \<open>The \<^verbatim>\<open>try\<close> block of \<^verbatim>\<open>createTemplateFromNode\<close>, on the first item.\<close>

definition templateBody :: "FlowItem \<Rightarrow> error + MessengerTemplate" where
  "templateBody item =
     (if item_type item = ''messengerTextVue'' then
        (case item_buttons item of
           Some (b # bs) \<Rightarrow>
             (case postbackButtons (b # bs) of
                Inl e \<Rightarrow> Inl e
              | Inr btns \<Rightarrow>
                  Inr (buttonTemplate (orElse (item_text item) []) btns))
         | _ \<Rightarrow> Inr (textTemplate (orElse (item_text item) [])))
      else if item_type item = ''messengerVideoVue'' then
        (if truthy (item_video_url item) then
           Inr \<lparr>template_type = ''media'', tpl_elements = None, tpl_text = None,
                tpl_buttons = None, tpl_quick_replies = None,
                tpl_attachment = Some \<lparr>att_type = ''video'', att_url = item_video_url item\<rparr>\<rparr>
         else if truthy (item_link item) then
           Inr \<lparr>template_type = ''generic'',
                tpl_elements = Some
                  [\<lparr>el_title = orElse (item_number item) ''Video'',
                    el_subtitle = Some ''Click to watch'', el_image_url = None,
                    el_default_action =
                      Some \<lparr>da_type = ''web_url'', da_url = the (item_link item)\<rparr>,
                    el_buttons = Some
                      [\<lparr>mb_type = ''web_url'', mb_title = ''Watch Video'',
                        mb_url = item_link item, mb_payload = None,
                        mb_phone_number = None\<rparr>]\<rparr>],
                tpl_text = None, tpl_buttons = None, tpl_quick_replies = None,
                tpl_attachment = None\<rparr>
         else Inr unknownTypeTemplate)
      else Inr unknownTypeTemplate)"

definition createTemplateFromNode :: "ChatbotNode \<Rightarrow> error + MessengerTemplate" where
  "createTemplateFromNode node =
     (case node_items node of
        None \<Rightarrow> Inr (textTemplate ''Sorry, this message is not properly configured.'')
      | Some [] \<Rightarrow> Inr (textTemplate ''Sorry, this message is not properly configured.'')
      | Some (item # _) \<Rightarrow>
          (case templateBody item of
             Inr t \<Rightarrow> Inr t
           | Inl e \<Rightarrow>
               Inr (textTemplate ''Sorry, I encountered an error processing this message.'')))"

section \<open>Outbound Gateway: MessengerClient\<close>

definition maxButtonTitleLength :: nat where
  "maxButtonTitleLength = 20"

definition maxTextLength :: nat where
  "maxTextLength = 2000"

definition validateText :: "string \<Rightarrow> string" where
  "validateText t = (if t = [] then [] else take maxTextLength t)"

definition validateButtonTitle :: "string \<Rightarrow> string" where
  "validateButtonTitle t = (if t = [] then [] else take maxButtonTitleLength t)"

definition validateButtons :: "MessengerButton list \<Rightarrow> MessengerButton list" where
  "validateButtons bs =
     map (\<lambda>button. button\<lparr>mb_title := validateButtonTitle (mb_title button)\<rparr>) (take 3 bs)"

definition validateElements :: "MessengerElement list \<Rightarrow> MessengerElement list" where
  "validateElements els =
     map (\<lambda>element. element
            \<lparr>el_title := validateText (el_title element),
             el_subtitle := (if truthy (el_subtitle element)
                             then Some (validateText (the (el_subtitle element))) else None),
             el_buttons := (case el_buttons element of
                              None \<Rightarrow> None | Some bs \<Rightarrow> Some (validateButtons bs))\<rparr>)
         (take 10 els)"

text \<open>\<^verbatim>\<open>sendMessage\<close>. The gateway \<open>net\<close> answers whether the request of the \<open>k\<close>-th call
  is delivered; a call without recipient fails before any request.\<close>

definition sendMessage :: "(nat \<Rightarrow> bool) \<Rightarrow> string \<Rightarrow> OutMessage \<Rightarrow> outbox \<Rightarrow> error option \<times> outbox" where
  "sendMessage net recipientId message out =
     (if recipientId = [] then (Some RecipientRequired, out @ [(recipientId, message)])
      else if net (length out) then (None, out @ [(recipientId, message)])
      else (Some MessengerApiError, out @ [(recipientId, message)]))"

text \<open>The \<^verbatim>\<open>switch\<close> of \<^verbatim>\<open>sendTemplate\<close>, which builds the message or throws.\<close>

definition prepareMessage :: "MessengerTemplate \<Rightarrow> error + OutMessage" where
  "prepareMessage template =
     (if template_type template = ''generic'' then
        Inr (AttachmentMessage (GenericPayload
          (validateElements (case tpl_elements template of None \<Rightarrow> [] | Some els \<Rightarrow> els))))
      else if template_type template = ''button'' then
        (if \<not> truthy (tpl_text template) then Inl (TemplateError ''Button template requires text'')
         else Inr (AttachmentMessage (ButtonPayload
                (validateText (the (tpl_text template)))
                (validateButtons (case tpl_buttons template of None \<Rightarrow> [] | Some bs \<Rightarrow> bs)))))
      else if template_type template = ''media'' then
        (case tpl_attachment template of
           None \<Rightarrow> Inl (TemplateError ''Media template requires a URL'')
         | Some att \<Rightarrow>
             (if \<not> truthy (att_url att) then Inl (TemplateError ''Media template requires a URL'')
              else Inr (AttachmentMessage (MediaAttachment att))))
      else if template_type template = ''text'' then
        (if \<not> truthy (tpl_text template) then Inl (TemplateError ''Text template requires text'')
         else Inr (TextMessage (validateText (the (tpl_text template)))
                (case tpl_quick_replies template of
                   None \<Rightarrow> None
                 | Some qs \<Rightarrow>
                     Some (map (\<lambda>reply. reply\<lparr>qr_title := validateButtonTitle (qr_title reply)\<rparr>)
                             (take 13 qs)))))
      else Inl (TemplateError (''Unsupported template type: '' @ template_type template)))"

text \<open>\<^verbatim>\<open>sendTemplate\<close>: the message it hands to \<^verbatim>\<open>sendMessage\<close> is the prepared one, or
  the text of the \<^verbatim>\<open>catch\<close> block when the preparation threw; a failure of
  \<^verbatim>\<open>sendMessage\<close> reaches the caller.\<close>

definition templateMessage :: "MessengerTemplate \<Rightarrow> OutMessage" where
  "templateMessage template =
     (case prepareMessage template of
        Inr message \<Rightarrow> message
      | Inl e \<Rightarrow>
          TextMessage
            ''Sorry, I encountered an error preparing the message. Please try again.'' None)"

definition sendTemplate :: "(nat \<Rightarrow> bool) \<Rightarrow> string \<Rightarrow> MessengerTemplate \<Rightarrow> outbox \<Rightarrow> error option \<times> outbox" where
  "sendTemplate net recipientId template out =
     sendMessage net recipientId (templateMessage template) out"

text \<open>The control signals log a failure and go on.\<close>

definition markSeen :: "(nat \<Rightarrow> bool) \<Rightarrow> string \<Rightarrow> outbox \<Rightarrow> outbox" where
  "markSeen net recipientId out = snd (sendMessage net recipientId (SenderAction ''mark_seen'') out)"

definition typingOn :: "(nat \<Rightarrow> bool) \<Rightarrow> string \<Rightarrow> outbox \<Rightarrow> outbox" where
  "typingOn net recipientId out = snd (sendMessage net recipientId (SenderAction ''typing_on'') out)"

definition typingOff :: "(nat \<Rightarrow> bool) \<Rightarrow> string \<Rightarrow> outbox \<Rightarrow> outbox" where
  "typingOff net recipientId out = snd (sendMessage net recipientId (SenderAction ''typing_off'') out)"

section \<open>Conversation Engine\<close>

text \<open>\<^verbatim>\<open>buttons.find(button => button.text.toLowerCase() === message.text.toLowerCase())\<close>;
  the callback throws on a \<^verbatim>\<open>null\<close> entry reached before a match.\<close>

fun findButton :: "lowercase \<Rightarrow> string \<Rightarrow> FlowButton option list \<Rightarrow> error + FlowButton option" where
  "findButton toLowerCase t [] = Inr None"
| "findButton toLowerCase t (None # bs) = Inl TypeError"
| "findButton toLowerCase t (Some button # bs) =
     (if toLowerCase (btn_text button) = toLowerCase t then Inr (Some button)
      else findButton toLowerCase t bs)"

text \<open>\<^verbatim>\<open>currentNode?.items[0]?.buttons\<close>: indexing the missing item list of an existing
  node is a TypeError.\<close>

definition currentButtons :: "Flow \<Rightarrow> UserSession \<Rightarrow> error + FlowButton option list option" where
  "currentButtons flow session =
     (case findNodeById flow (currentNode session) of
        None \<Rightarrow> Inr None
      | Some node \<Rightarrow>
          (case node_items node of
             None \<Rightarrow> Inl TypeError
           | Some [] \<Rightarrow> Inr None
           | Some (item # _) \<Rightarrow> Inr (item_buttons item)))"

text \<open>The button match of the branch \<^verbatim>\<open>else if (message.text)\<close> of \<^verbatim>\<open>handleMessage\<close>:
  \<^verbatim>\<open>nextNodes[0]\<close> of the matching button of the current node, if there is one.\<close>

definition matchButtonTarget ::
  "lowercase \<Rightarrow> Flow \<Rightarrow> UserSession \<Rightarrow> string \<Rightarrow> error + string option" where
  "matchButtonTarget toLowerCase flow session t =
     (case currentButtons flow session of
        Inl e \<Rightarrow> Inl e
      | Inr None \<Rightarrow> Inr None
      | Inr (Some bs) \<Rightarrow>
          (case findButton toLowerCase t bs of
             Inl e \<Rightarrow> Inl e
           | Inr None \<Rightarrow> Inr None
           | Inr (Some matchingButton) \<Rightarrow>
               Inr (first (findNextNodes flow (btn_id matchingButton)))))"

text \<open>The whole branch: \<^verbatim>\<open>if (!nextNodeId) nextNodeId = this.flow.messages[0].id\<close> after
  the button match.\<close>

definition resolveText ::
  "lowercase \<Rightarrow> Flow \<Rightarrow> UserSession \<Rightarrow> string \<Rightarrow> error + string option" where
  "resolveText toLowerCase flow session t =
     (case matchButtonTarget toLowerCase flow session t of
        Inl e \<Rightarrow> Inl e
      | Inr nextNodeId \<Rightarrow>
          (if \<not> truthy nextNodeId then
             (case messages flow of
                [] \<Rightarrow> Inl TypeError
              | m # _ \<Rightarrow> Inr (Some (node_id m)))
           else Inr nextNodeId))"

text \<open>The resolution of \<^verbatim>\<open>nextNodeId\<close> in \<^verbatim>\<open>handleMessage\<close>: by postback, else by text,
  else undefined.\<close>

definition resolveNextNodeId ::
  "lowercase \<Rightarrow> Flow \<Rightarrow> UserSession \<Rightarrow> InMessage \<Rightarrow> error + string option" where
  "resolveNextNodeId toLowerCase flow session message =
     (case postback message of
        Some payload \<Rightarrow> Inr (first (findNextNodes flow payload))
      | None \<Rightarrow>
          (if truthy (msg_text message)
           then resolveText toLowerCase flow session (the (msg_text message))
           else Inr None))"

text \<open>\<^verbatim>\<open>if (nextNodeId) { const node = this.findNodeById(nextNodeId); if (node) ... }\<close>:
  the session and the outbox afterwards, with the error of a failed send.\<close>

definition dispatchNode ::
  "Flow \<Rightarrow> (nat \<Rightarrow> bool) \<Rightarrow> string \<Rightarrow> string option \<Rightarrow> UserSession \<Rightarrow> outbox
     \<Rightarrow> error option \<times> UserSession \<times> outbox" where
  "dispatchNode flow net senderId nextNodeId session out =
     (if truthy nextNodeId then
        (case findNodeById flow (the nextNodeId) of
           None \<Rightarrow> (None, session, out)
         | Some node \<Rightarrow>
             (let session' = session\<lparr>currentNode := the nextNodeId\<rparr> in
              case createTemplateFromNode node of
                Inl e \<Rightarrow> (Some e, session', out)
              | Inr template \<Rightarrow>
                  (case sendTemplate net senderId template out of
                     (r, out') \<Rightarrow> (r, session', out'))))
      else (None, session, out))"

definition rateLimitNotice :: MessengerTemplate where
  "rateLimitNotice =
     textTemplate (''You'' @ [CHR 0x27] @
       ''re sending messages too quickly. Please wait a moment before trying again.'')"

definition errorNotice :: MessengerTemplate where
  "errorNotice = textTemplate ''Sorry, I encountered an error. Please try again.''"

text \<open>The \<^verbatim>\<open>try\<close> block of \<^verbatim>\<open>handleMessage\<close>. The clock is read three times: \<open>tCreate\<close>
  by \<^verbatim>\<open>getUserSession\<close>, \<open>tCheck\<close> by \<^verbatim>\<open>checkRateLimit\<close>, \<open>tTouch\<close> by
  \<^verbatim>\<open>updateSessionActivity\<close>. The session is an object held by the map, so each change
  of it is a change of the map's entry.\<close>

definition handleBody ::
  "lowercase \<Rightarrow> Flow \<Rightarrow> (nat \<Rightarrow> bool) \<Rightarrow> int \<Rightarrow> int \<Rightarrow> int \<Rightarrow> string \<Rightarrow> InMessage
     \<Rightarrow> ChatState \<Rightarrow> error option \<times> ChatState" where
  "handleBody toLowerCase flow net tCreate tCheck tTouch senderId message st =
     (case getUserSession flow tCreate senderId (userSessions st) of
        Inl e \<Rightarrow> (Some e, st)
      | Inr (session0, us) \<Rightarrow>
          (case checkRateLimit tCheck session0 of
             (allowed, session) \<Rightarrow>
               (if \<not> allowed then
                  (case sendTemplate net senderId rateLimitNotice (sent st) of
                     (r, out) \<Rightarrow>
                       (r, \<lparr>userSessions = AList.update senderId session us, sent = out\<rparr>))
                else
                  (let out2 = typingOn net senderId (markSeen net senderId (sent st)) in
                   case resolveNextNodeId toLowerCase flow session message of
                     Inl e \<Rightarrow>
                       (Some e, \<lparr>userSessions = AList.update senderId session us, sent = out2\<rparr>)
                   | Inr nextNodeId \<Rightarrow>
                       (case dispatchNode flow net senderId nextNodeId session out2 of
                          (Some e, session', out3) \<Rightarrow>
                            (Some e,
                             \<lparr>userSessions = AList.update senderId session' us, sent = out3\<rparr>)
                        | (None, session', out3) \<Rightarrow>
                            (None,
                             \<lparr>userSessions =
                                AList.update senderId (updateSessionActivity tTouch session') us,
                              sent = typingOff net senderId out3\<rparr>))))))"

text \<open>\<^verbatim>\<open>handleMessage\<close>: the \<^verbatim>\<open>catch\<close> sends the error notice and throws again; a failure
  of that send is the error thrown instead.\<close>

definition handleMessage ::
  "lowercase \<Rightarrow> Flow \<Rightarrow> (nat \<Rightarrow> bool) \<Rightarrow> int \<Rightarrow> int \<Rightarrow> int \<Rightarrow> string \<Rightarrow> InMessage
     \<Rightarrow> ChatState \<Rightarrow> error option \<times> ChatState" where
  "handleMessage toLowerCase flow net tCreate tCheck tTouch senderId message st =
     (case handleBody toLowerCase flow net tCreate tCheck tTouch senderId message st of
        (None, st') \<Rightarrow> (None, st')
      | (Some e, st') \<Rightarrow>
          (case sendTemplate net senderId errorNotice (sent st') of
             (None, out) \<Rightarrow> (Some e, st'\<lparr>sent := out\<rparr>)
           | (Some e', out) \<Rightarrow> (Some e', st'\<lparr>sent := out\<rparr>)))"

section \<open>Example data\<close>

text \<open>Gateways that deliver every request, or none.\<close>

definition alwaysDelivered :: "nat \<Rightarrow> bool" where
  "alwaysDelivered k = True"

definition neverDelivered :: "nat \<Rightarrow> bool" where
  "neverDelivered k = False"

text \<open>The instance of \<open>toLowerCase\<close> used in the examples: it maps \<open>A\<close> to \<open>Z\<close> to
  \<open>a\<close> to \<open>z\<close> and keeps every other character, as \<^verbatim>\<open>String.prototype.toLowerCase\<close>
  does on the ASCII strings of the examples.\<close>

definition asciiLowerChar :: "char \<Rightarrow> char" where
  "asciiLowerChar c =
     (let n = (of_char c :: nat) in if 65 \<le> n \<and> n \<le> 90 then char_of (n + 32) else c)"

definition asciiToLowerCase :: lowercase where
  "asciiToLowerCase s = map asciiLowerChar s"

definition exampleSession :: "string \<Rightarrow> int \<Rightarrow> int \<Rightarrow> UserSession" where
  "exampleSession node t n =
     \<lparr>currentNode = node, lastInteraction = t, messageCount = n, session_context = []\<rparr>"

definition exampleItem :: "string \<Rightarrow> string option \<Rightarrow> FlowButton option list option \<Rightarrow> FlowItem" where
  "exampleItem ty t bs =
     \<lparr>item_id = ''i'', item_type = ty, item_text = t, item_video_url = None,
      item_number = None, item_link = None, item_buttons = bs\<rparr>"

definition exampleNode :: "string \<Rightarrow> FlowItem list option \<Rightarrow> ChatbotNode" where
  "exampleNode i its = \<lparr>node_id = i, node_type = ''message'', node_label = i, node_items = its\<rparr>"

text \<open>The flow of the scenarios: node \<open>A\<close> (text "Hi", button \<open>b1\<close> "Next"), node \<open>B\<close>
  (text "Bye"), edge \<open>b1 \<rightarrow> B\<close>.\<close>

definition exampleNodeA :: ChatbotNode where
  "exampleNodeA =
     exampleNode ''A''
       (Some [exampleItem ''messengerTextVue'' (Some ''Hi'')
                (Some [Some \<lparr>btn_id = ''b1'', btn_text = ''Next''\<rparr>])])"

definition exampleNodeB :: ChatbotNode where
  "exampleNodeB = exampleNode ''B'' (Some [exampleItem ''messengerTextVue'' (Some ''Bye'') None])"

definition exampleFlow :: Flow where
  "exampleFlow =
     \<lparr>messages = [exampleNodeA, exampleNodeB],
      edges = [\<lparr>edge_source = ''b1'', edge_target = ''B''\<rparr>]\<rparr>"


section \<open>Auxiliary facts\<close>

lemma cleanupLoop_lookup:
  "map_of (cleanupLoop now es us) k =
     (if \<exists>s. (k, s) \<in> set es \<and> now - lastInteraction s > sessionTimeout then None
      else map_of us k)"
proof (induction es arbitrary: us)
  case Nil
  then show ?case by simp
next
  case (Cons e es)
  obtain k' s' where e: "e = (k', s')" by (cases e)
  show ?case
    unfolding e by (auto simp: Cons.IH AList.delete_conv')
qed

lemma cleanupLoop_distinct:
  "distinct (map fst us) \<Longrightarrow> distinct (map fst (cleanupLoop now es us))"
  by (induction es arbitrary: us) (auto simp: AList.distinct_delete)

lemma sessionCleanup_distinct:
  "distinct (map fst us) \<Longrightarrow> distinct (map fst (sessionCleanup now us))"
  by (simp add: sessionCleanup_def cleanupLoop_distinct)

lemma templateBody_type:
  "templateBody item = Inr t \<Longrightarrow> template_type t \<in> {''text'', ''button'', ''media'', ''generic''}"
  by (auto simp: templateBody_def textTemplate_def unknownTypeTemplate_def buttonTemplate_def
      split: if_splits option.splits list.splits sum.splits)

lemma validateText_take: "validateText t = take 2000 t"
  by (simp add: validateText_def maxTextLength_def)

lemma validateButtonTitle_take: "validateButtonTitle t = take 20 t"
  by (simp add: validateButtonTitle_def maxButtonTitleLength_def)

lemma postbackButtons_map: "postbackButtons (map Some bs) = Inr (map postbackOf bs)"
  by (induction bs) auto

lemma markSeen_out: "markSeen net r out = out @ [(r, SenderAction ''mark_seen'')]"
  by (simp add: markSeen_def sendMessage_def)

lemma typingOn_out: "typingOn net r out = out @ [(r, SenderAction ''typing_on'')]"
  by (simp add: typingOn_def sendMessage_def)

lemma typingOff_out: "typingOff net r out = out @ [(r, SenderAction ''typing_off'')]"
  by (simp add: typingOff_def sendMessage_def)

lemma checkRateLimit_currentNode:
  "checkRateLimit t s0 = (b, s) \<Longrightarrow> currentNode s = currentNode s0"
  by (auto simp: checkRateLimit_def Let_def split: if_splits)

lemma checkRateLimit_rejects:
  "checkRateLimit t s0 = (False, s) \<Longrightarrow> s = s0 \<and> 20 \<le> messageCount s0"
  by (auto simp: checkRateLimit_def Let_def maxMessagesPerMinute_def split: if_splits)

lemma getUserSession_rejected:
  assumes "getUserSession flow t k us0 = Inr (s0, us)" and "checkRateLimit t' s0 = (False, s)"
  shows "us = us0 \<and> map_of us0 k = Some s0"
proof (cases "map_of us0 k")
  case None
  with assms(1) have "messageCount s0 = 0"
    by (auto simp: getUserSession_def Let_def split: list.splits)
  with checkRateLimit_rejects [OF assms(2)] show ?thesis by simp
next
  case (Some a)
  with assms(1) show ?thesis by (simp add: getUserSession_def)
qed

lemma handleBody_allowed:
  assumes "getUserSession flow tCreate senderId (userSessions st) = Inr (session0, us)"
    and "checkRateLimit tCheck session0 = (True, session)"
  shows "handleBody toLowerCase flow net tCreate tCheck tTouch senderId message st =
     (case resolveNextNodeId toLowerCase flow session message of
        Inl e \<Rightarrow>
          (Some e, \<lparr>userSessions = AList.update senderId session us,
                    sent = sent st @ [(senderId, SenderAction ''mark_seen''),
                                      (senderId, SenderAction ''typing_on'')]\<rparr>)
      | Inr nextNodeId \<Rightarrow>
          (case dispatchNode flow net senderId nextNodeId session
                  (sent st @ [(senderId, SenderAction ''mark_seen''),
                              (senderId, SenderAction ''typing_on'')]) of
             (Some e, session', out3) \<Rightarrow>
               (Some e, \<lparr>userSessions = AList.update senderId session' us, sent = out3\<rparr>)
           | (None, session', out3) \<Rightarrow>
               (None,
                \<lparr>userSessions = AList.update senderId (updateSessionActivity tTouch session') us,
                 sent = out3 @ [(senderId, SenderAction ''typing_off'')]\<rparr>)))"
  using assms
  by (simp add: handleBody_def markSeen_out typingOn_out typingOff_out Let_def
      split: sum.splits prod.splits option.splits)

lemma templateMessage_rateLimitNotice:
  "templateMessage rateLimitNotice =
     TextMessage (''You'' @ [CHR 0x27] @
       ''re sending messages too quickly. Please wait a moment before trying again.'') None"
  by (simp add: templateMessage_def prepareMessage_def rateLimitNotice_def textTemplate_def
      truthy_def validateText_def maxTextLength_def)

lemma templateMessage_errorNotice:
  "templateMessage errorNotice =
     TextMessage ''Sorry, I encountered an error. Please try again.'' None"
  by (simp add: templateMessage_def prepareMessage_def errorNotice_def textTemplate_def
      truthy_def validateText_def maxTextLength_def)






text \<open>The keys of the session map stay distinct, as those of a \<^verbatim>\<open>Map\<close> are.\<close>

lemma getUserSession_distinct:
  "getUserSession flow t k us0 = Inr (s, us) \<Longrightarrow> distinct (map fst us0)
     \<Longrightarrow> distinct (map fst us)"
  by (auto simp: getUserSession_def Let_def AList.distinct_update
      split: option.splits list.splits)

lemma handleBody_distinct:
  assumes "distinct (map fst (userSessions st))"
  shows "distinct (map fst (userSessions (snd (handleBody lc flow net t1 t2 t3 k msg st))))"
proof (cases "getUserSession flow t1 k (userSessions st)")
  case (Inl e)
  then show ?thesis using assms by (simp add: handleBody_def)
next
  case (Inr p)
  obtain s0 us where p: "p = (s0, us)" by (cases p)
  have d: "distinct (map fst (AList.update k x us))" for x
    using getUserSession_distinct [OF Inr [unfolded p] assms] by (simp add: AList.distinct_update)
  show ?thesis
    using d by (simp add: handleBody_def Inr p Let_def split: prod.splits sum.splits option.splits)
qed

lemma handleMessage_distinct:
  assumes "distinct (map fst (userSessions st))"
  shows "distinct (map fst (userSessions (snd (handleMessage lc flow net t1 t2 t3 k msg st))))"
  using handleBody_distinct [OF assms, of lc flow net t1 t2 t3 k msg]
  by (auto simp: handleMessage_def split: prod.splits option.splits)

section \<open>Rate limiter\<close>

text \<open>
  C3: \<^verbatim>\<open>checkRateLimit\<close> first resets the message count to 0 when the last interaction is
  more than 60 seconds before now, and then answers true exactly when the count (not yet
  incremented) is below 20. With count 19 and last interaction now it answers true, with
  count 20 false, and with a last interaction 61 seconds ago it answers true and the
  count is 0, whatever it was.
\<close>

theorem checkRateLimit_spec:
  "snd (checkRateLimit now s) =
     (if now - lastInteraction s > 60 * 1000 then s\<lparr>messageCount := 0\<rparr> else s)
   \<and> (fst (checkRateLimit now s) \<longleftrightarrow> messageCount (snd (checkRateLimit now s)) < 20)
   \<and> fst (checkRateLimit now (s\<lparr>lastInteraction := now, messageCount := 19\<rparr>))
   \<and> \<not> fst (checkRateLimit now (s\<lparr>lastInteraction := now, messageCount := 20\<rparr>))
   \<and> checkRateLimit now (s\<lparr>lastInteraction := now - 61 * 1000, messageCount := c\<rparr>)
       = (True, s\<lparr>lastInteraction := now - 61 * 1000, messageCount := 0\<rparr>)"
  by (auto simp: checkRateLimit_def maxMessagesPerMinute_def Let_def)

theorem checkRateLimit_spec_witness:
  "checkRateLimit 500000 (exampleSession ''A'' 439000 57) = (True, exampleSession ''A'' 439000 0)
   \<and> \<not> fst (checkRateLimit 500000 (exampleSession ''A'' 500000 20))
   \<and> fst (checkRateLimit 500000 (exampleSession ''A'' 500000 19))"
  using checkRateLimit_spec [of 500000 "exampleSession ''A'' 0 0" 57]
  by (simp add: exampleSession_def)

section \<open>Session eviction\<close>

text \<open>
  C7: one sweep of the session registry removes exactly the sessions whose last
  interaction is more than 30 minutes before the sweep: such a session is absent
  afterwards, and every other session (one touched 29 minutes ago, say) is still there,
  unchanged. The keys of a \<^verbatim>\<open>Map\<close> are distinct.
\<close>

theorem sessionCleanup_spec:
  assumes "distinct (map fst us)"
  shows "map_of (sessionCleanup now us) senderId =
           (case map_of us senderId of
              None \<Rightarrow> None
            | Some session \<Rightarrow>
                if now - lastInteraction session > 30 * 60 * 1000 then None else Some session)"
proof -
  have "(\<exists>s. (senderId, s) \<in> set us \<and> now - lastInteraction s > sessionTimeout)
        \<longleftrightarrow> (\<exists>s. map_of us senderId = Some s \<and> now - lastInteraction s > sessionTimeout)"
    using assms by auto
  then show ?thesis
    by (auto simp: sessionCleanup_def cleanupLoop_lookup sessionTimeout_def split: option.splits)
qed

theorem sessionCleanup_spec_witness:
  "distinct (map fst [(''old'', exampleSession ''A'' 0 3), (''new'', exampleSession ''B'' 60001 1)])
   \<and> map_of (sessionCleanup 1800001
        [(''old'', exampleSession ''A'' 0 3), (''new'', exampleSession ''B'' 60001 1)]) ''old'' = None
   \<and> map_of (sessionCleanup 1800001
        [(''old'', exampleSession ''A'' 0 3), (''new'', exampleSession ''B'' 60001 1)]) ''new''
       = Some (exampleSession ''B'' 60001 1)"
proof -
  have d: "distinct (map fst [(''old'', exampleSession ''A'' 0 3), (''new'', exampleSession ''B'' 60001 1)])"
    by simp
  show ?thesis
    using d sessionCleanup_spec [OF d, of 1800001 "''old''"]
      sessionCleanup_spec [OF d, of 1800001 "''new''"]
    by (simp add: exampleSession_def)
qed

section \<open>Session creation on an empty flow\<close>

text \<open>
  C9: flow validation only checks that \<^verbatim>\<open>messages\<close> and \<^verbatim>\<open>elements.edges\<close> are present and
  arrays, so it accepts a flow whose \<^verbatim>\<open>messages\<close> is the empty list. Creating the session of
  a sender that has none reads the id of the first node: it returns a session exactly
  when the flow has a node, and throws a TypeError when \<^verbatim>\<open>messages\<close> is empty.
\<close>

theorem validateFlow_accepts_empty_flow:
  "(validateFlow raw = None \<longleftrightarrow>
      (\<exists>ms es. raw_messages raw = Array ms \<and> raw_elements raw = Some (Array es)))
   \<and> loadFlow \<lparr>raw_messages = Array [], raw_elements = Some (Array es)\<rparr>
       = Inr \<lparr>messages = [], edges = es\<rparr>
   \<and> (map_of us senderId = None \<longrightarrow>
        ((\<exists>r. getUserSession flow now senderId us = Inr r) \<longleftrightarrow> messages flow \<noteq> [])
        \<and> (messages flow = [] \<longrightarrow> getUserSession flow now senderId us = Inl TypeError))"
  by (auto simp: validateFlow_def loadFlow_def getUserSession_def Let_def
      split: json_field.splits option.splits list.splits)

theorem validateFlow_accepts_empty_flow_witness:
  "validateFlow \<lparr>raw_messages = Array [], raw_elements = Some (Array [])\<rparr> = None
   \<and> loadFlow \<lparr>raw_messages = Array [], raw_elements = Some (Array [])\<rparr>
       = Inr \<lparr>messages = [], edges = []\<rparr>
   \<and> map_of ([] :: sessions) ''u1'' = None
   \<and> getUserSession \<lparr>messages = [], edges = []\<rparr> 0 ''u1'' [] = Inl TypeError
   \<and> (\<exists>r. getUserSession exampleFlow 0 ''u1'' [] = Inr r)"
  using validateFlow_accepts_empty_flow
    [of "\<lparr>raw_messages = Array [], raw_elements = Some (Array [])\<rparr>" "[]" "[]" "''u1''"
        "\<lparr>messages = [], edges = []\<rparr>" 0]
    validateFlow_accepts_empty_flow [where us = "[]" and senderId = "''u1''" and flow = exampleFlow
      and now = 0]
  by (simp add: exampleFlow_def)

section \<open>The template builder never throws\<close>

text \<open>
  C8: for every node \<^verbatim>\<open>createTemplateFromNode\<close> returns a template and throws nothing: a
  missing or empty item list gives the "not properly configured" text, an item of an
  unrecognised type the "don't understand" text, and an exception raised while the
  template is built (a \<^verbatim>\<open>null\<close> entry among the buttons) is caught and replaced by the
  plain-text error notice.
\<close>

theorem createTemplateFromNode_never_throws:
  "(\<exists>t. createTemplateFromNode node = Inr t
        \<and> template_type t \<in> {''text'', ''button'', ''media'', ''generic''})
   \<and> (node_items node = None \<or> node_items node = Some [] \<longrightarrow>
        createTemplateFromNode node =
          Inr (textTemplate ''Sorry, this message is not properly configured.''))
   \<and> (node_items node = Some (item # rest) \<and> templateBody item = Inl e \<longrightarrow>
        createTemplateFromNode node =
          Inr (textTemplate ''Sorry, I encountered an error processing this message.''))
   \<and> (node_items node = Some (item # rest) \<and> item_type item \<noteq> ''messengerTextVue''
        \<and> item_type item \<noteq> ''messengerVideoVue'' \<longrightarrow>
        createTemplateFromNode node = Inr unknownTypeTemplate)"
proof -
  have "\<exists>t. createTemplateFromNode node = Inr t
        \<and> template_type t \<in> {''text'', ''button'', ''media'', ''generic''}"
  proof (cases "node_items node")
    case None
    then show ?thesis by (simp add: createTemplateFromNode_def textTemplate_def)
  next
    case (Some its)
    show ?thesis
    proof (cases its)
      case Nil
      with Some show ?thesis by (simp add: createTemplateFromNode_def textTemplate_def)
    next
      case (Cons it its')
      show ?thesis
      proof (cases "templateBody it")
        case (Inl e)
        with Some Cons show ?thesis by (simp add: createTemplateFromNode_def textTemplate_def)
      next
        case (Inr t)
        with Some Cons templateBody_type [OF Inr] show ?thesis
          by (simp add: createTemplateFromNode_def)
      qed
    qed
  qed
  moreover have "node_items node = None \<or> node_items node = Some [] \<longrightarrow>
        createTemplateFromNode node =
          Inr (textTemplate ''Sorry, this message is not properly configured.'')"
    by (auto simp: createTemplateFromNode_def)
  moreover have "node_items node = Some (item # rest) \<and> templateBody item = Inl e \<longrightarrow>
        createTemplateFromNode node =
          Inr (textTemplate ''Sorry, I encountered an error processing this message.'')"
    by (auto simp: createTemplateFromNode_def)
  moreover have "node_items node = Some (item # rest) \<and> item_type item \<noteq> ''messengerTextVue''
        \<and> item_type item \<noteq> ''messengerVideoVue'' \<longrightarrow>
        createTemplateFromNode node = Inr unknownTypeTemplate"
    by (auto simp: createTemplateFromNode_def templateBody_def)
  ultimately show ?thesis by blast
qed

theorem createTemplateFromNode_never_throws_witness:
  "templateBody (exampleItem ''messengerTextVue'' (Some ''Hi'') (Some [None])) = Inl TypeError
   \<and> createTemplateFromNode
        (exampleNode ''A'' (Some [exampleItem ''messengerTextVue'' (Some ''Hi'') (Some [None])]))
       = Inr (textTemplate ''Sorry, I encountered an error processing this message.'')
   \<and> createTemplateFromNode (exampleNode ''A'' None)
       = Inr (textTemplate ''Sorry, this message is not properly configured.'')
   \<and> createTemplateFromNode (exampleNode ''A'' (Some [exampleItem ''carousel'' None None]))
       = Inr unknownTypeTemplate"
proof -
  have b: "templateBody (exampleItem ''messengerTextVue'' (Some ''Hi'') (Some [None])) = Inl TypeError"
    by (simp add: templateBody_def exampleItem_def)
  show ?thesis
    using b
      createTemplateFromNode_never_throws
        [of "exampleNode ''A'' (Some [exampleItem ''messengerTextVue'' (Some ''Hi'') (Some [None])])"
            "exampleItem ''messengerTextVue'' (Some ''Hi'') (Some [None])" "[]" TypeError]
      createTemplateFromNode_never_throws [of "exampleNode ''A'' None"]
      createTemplateFromNode_never_throws
        [of "exampleNode ''A'' (Some [exampleItem ''carousel'' None None])"
            "exampleItem ''carousel'' None None" "[]"]
    by (simp add: exampleNode_def exampleItem_def)
qed

section \<open>Truncation of button templates\<close>

text \<open>
  C4, as stated, fails: the descriptor returned by \<^verbatim>\<open>createTemplateFromNode\<close> is not
  truncated. For a text item of 2500 characters with four buttons, the first with a title
  of 30 characters, it carries all 2500 characters, all four buttons and the title of 30
  characters.
\<close>

theorem createTemplateFromNode_does_not_truncate:
  "createTemplateFromNode
     (exampleNode ''A''
        (Some [exampleItem ''messengerTextVue'' (Some (replicate 2500 (CHR ''a'')))
                 (Some [Some \<lparr>btn_id = ''b1'', btn_text = replicate 30 (CHR ''b'')\<rparr>,
                        Some \<lparr>btn_id = ''b2'', btn_text = ''Two''\<rparr>,
                        Some \<lparr>btn_id = ''b3'', btn_text = ''Three''\<rparr>,
                        Some \<lparr>btn_id = ''b4'', btn_text = ''Four''\<rparr>])]))
   = Inr (buttonTemplate (replicate 2500 (CHR ''a''))
            [\<lparr>mb_type = ''postback'', mb_title = replicate 30 (CHR ''b''), mb_url = None,
              mb_payload = Some ''b1'', mb_phone_number = None\<rparr>,
             \<lparr>mb_type = ''postback'', mb_title = ''Two'', mb_url = None,
              mb_payload = Some ''b2'', mb_phone_number = None\<rparr>,
             \<lparr>mb_type = ''postback'', mb_title = ''Three'', mb_url = None,
              mb_payload = Some ''b3'', mb_phone_number = None\<rparr>,
             \<lparr>mb_type = ''postback'', mb_title = ''Four'', mb_url = None,
              mb_payload = Some ''b4'', mb_phone_number = None\<rparr>])
   \<and> length (replicate 2500 (CHR ''a'')) = 2500
   \<and> length (replicate 30 (CHR ''b'')) = 30"
  by (simp add: createTemplateFromNode_def templateBody_def exampleNode_def exampleItem_def
      postbackOf_def orElse_def truthy_def)

text \<open>
  C4, amended: for a node whose first item is a text item with at least one button,
  \<^verbatim>\<open>createTemplateFromNode\<close> returns a button template with the whole text of the item and
  one postback button for each button of the item, its title the button's label and its
  payload the button's id. The limits are applied by \<^verbatim>\<open>sendTemplate\<close>: when the text is
  not empty, the message it sends is a button template with the first 2000 characters of
  the text and the first 3 buttons, each a postback with the first 20 characters of its
  title and the button's id as payload; when the text is empty it sends the
  preparation-error text instead.
\<close>

theorem button_template_truncated_by_sendTemplate:
  assumes "node_items node = Some (item # rest)"
    and "item_type item = ''messengerTextVue''"
    and "item_buttons item = Some (map Some bs)"
    and "bs \<noteq> []"
  shows "createTemplateFromNode node
           = Inr (buttonTemplate (orElse (item_text item) []) (map postbackOf bs))
         \<and> (truthy (item_text item) \<longrightarrow>
              sendTemplate net recipientId
                  (buttonTemplate (orElse (item_text item) []) (map postbackOf bs)) out
                = sendMessage net recipientId
                    (AttachmentMessage
                       (ButtonPayload (take 2000 (the (item_text item)))
                          (map (\<lambda>b. \<lparr>mb_type = ''postback'', mb_title = take 20 (btn_text b),
                                      mb_url = None, mb_payload = Some (btn_id b),
                                      mb_phone_number = None\<rparr>)
                               (take 3 bs))))
                    out)
         \<and> (\<not> truthy (item_text item) \<longrightarrow>
              sendTemplate net recipientId
                  (buttonTemplate (orElse (item_text item) []) (map postbackOf bs)) out
                = sendMessage net recipientId
                    (TextMessage
                       ''Sorry, I encountered an error preparing the message. Please try again.''
                       None)
                    out)"
proof -
  from assms(4) obtain b bs' where bs: "bs = b # bs'" by (cases bs) auto
  have pb: "postbackButtons (map Some bs) = Inr (map postbackOf bs)"
    by (rule postbackButtons_map)
  have create: "createTemplateFromNode node
           = Inr (buttonTemplate (orElse (item_text item) []) (map postbackOf bs))"
    using assms(1-3) pb by (simp add: createTemplateFromNode_def templateBody_def bs)
  have prep1: "truthy (item_text item) \<Longrightarrow>
      prepareMessage (buttonTemplate (orElse (item_text item) []) (map postbackOf bs))
        = Inr (AttachmentMessage
                 (ButtonPayload (take 2000 (the (item_text item)))
                    (map (\<lambda>b. \<lparr>mb_type = ''postback'', mb_title = take 20 (btn_text b),
                                mb_url = None, mb_payload = Some (btn_id b),
                                mb_phone_number = None\<rparr>)
                         (take 3 bs))))"
    by (simp add: prepareMessage_def buttonTemplate_def orElse_def validateText_take
        validateButtons_def validateButtonTitle_take postbackOf_def take_map truthy_def
        split: option.splits)
  have prep2: "\<not> truthy (item_text item) \<Longrightarrow>
      prepareMessage (buttonTemplate (orElse (item_text item) []) (map postbackOf bs))
        = Inl (TemplateError ''Button template requires text'')"
    by (simp add: prepareMessage_def buttonTemplate_def orElse_def truthy_def)
  show ?thesis
    using create prep1 prep2 by (simp add: sendTemplate_def templateMessage_def)
qed

theorem button_template_truncated_by_sendTemplate_witness:
  "sendTemplate alwaysDelivered ''u1''
     (buttonTemplate (replicate 2500 (CHR ''a''))
        (map postbackOf [\<lparr>btn_id = ''b1'', btn_text = replicate 30 (CHR ''b'')\<rparr>,
                        \<lparr>btn_id = ''b2'', btn_text = ''Two''\<rparr>,
                        \<lparr>btn_id = ''b3'', btn_text = ''Three''\<rparr>,
                        \<lparr>btn_id = ''b4'', btn_text = ''Four''\<rparr>])) []
   = (None,
      [(''u1'', AttachmentMessage
          (ButtonPayload (replicate 2000 (CHR ''a''))
             [\<lparr>mb_type = ''postback'', mb_title = replicate 20 (CHR ''b''), mb_url = None,
               mb_payload = Some ''b1'', mb_phone_number = None\<rparr>,
              \<lparr>mb_type = ''postback'', mb_title = ''Two'', mb_url = None,
               mb_payload = Some ''b2'', mb_phone_number = None\<rparr>,
              \<lparr>mb_type = ''postback'', mb_title = ''Three'', mb_url = None,
               mb_payload = Some ''b3'', mb_phone_number = None\<rparr>]))])
   \<and> createTemplateFromNode
        (exampleNode ''A''
           (Some [exampleItem ''messengerTextVue'' None
                    (Some [Some \<lparr>btn_id = ''b1'', btn_text = ''Next''\<rparr>])]))
       = Inr (buttonTemplate [] [postbackOf \<lparr>btn_id = ''b1'', btn_text = ''Next''\<rparr>])
   \<and> sendTemplate alwaysDelivered ''u1''
        (buttonTemplate [] [postbackOf \<lparr>btn_id = ''b1'', btn_text = ''Next''\<rparr>]) []
       = (None,
          [(''u1'', TextMessage
              ''Sorry, I encountered an error preparing the message. Please try again.''
              None)])"
  using button_template_truncated_by_sendTemplate
    [of "exampleNode ''A''
        (Some [exampleItem ''messengerTextVue'' (Some (replicate 2500 (CHR ''a'')))
                 (Some (map Some [\<lparr>btn_id = ''b1'', btn_text = replicate 30 (CHR ''b'')\<rparr>,
                        \<lparr>btn_id = ''b2'', btn_text = ''Two''\<rparr>,
                        \<lparr>btn_id = ''b3'', btn_text = ''Three''\<rparr>,
                        \<lparr>btn_id = ''b4'', btn_text = ''Four''\<rparr>]))])"
      "exampleItem ''messengerTextVue'' (Some (replicate 2500 (CHR ''a'')))
                 (Some (map Some [\<lparr>btn_id = ''b1'', btn_text = replicate 30 (CHR ''b'')\<rparr>,
                        \<lparr>btn_id = ''b2'', btn_text = ''Two''\<rparr>,
                        \<lparr>btn_id = ''b3'', btn_text = ''Three''\<rparr>,
                        \<lparr>btn_id = ''b4'', btn_text = ''Four''\<rparr>]))"
      "[]"
      "[\<lparr>btn_id = ''b1'', btn_text = replicate 30 (CHR ''b'')\<rparr>,
                        \<lparr>btn_id = ''b2'', btn_text = ''Two''\<rparr>,
                        \<lparr>btn_id = ''b3'', btn_text = ''Three''\<rparr>,
                        \<lparr>btn_id = ''b4'', btn_text = ''Four''\<rparr>]"
      alwaysDelivered "''u1''" "[]"]
    button_template_truncated_by_sendTemplate
    [of "exampleNode ''A''
           (Some [exampleItem ''messengerTextVue'' None
                    (Some (map Some [\<lparr>btn_id = ''b1'', btn_text = ''Next''\<rparr>]))])"
        "exampleItem ''messengerTextVue'' None
                    (Some (map Some [\<lparr>btn_id = ''b1'', btn_text = ''Next''\<rparr>]))"
        "[]" "[\<lparr>btn_id = ''b1'', btn_text = ''Next''\<rparr>]" alwaysDelivered "''u1''" "[]"]
  by (simp add: exampleNode_def exampleItem_def orElse_def truthy_def sendMessage_def
      alwaysDelivered_def)

section \<open>Conversation Engine: resolution of the target\<close>








section \<open>Conversation Engine: rate-limit rejection\<close>

text \<open>
  C5, as stated, fails when the gateway does not deliver the rate-limit notice: the
  failure is caught by the handler of \<^verbatim>\<open>handleMessage\<close>, which dispatches the generic
  error notice as well, so the rate-limit notice is not the only dispatch.
\<close>

theorem failed_rate_limit_notice_is_followed_by_error_notice:
  "checkRateLimit 1000 (exampleSession ''A'' 1000 20) = (False, exampleSession ''A'' 1000 20)
   \<and> handleMessage asciiToLowerCase exampleFlow neverDelivered 0 1000 2000 ''u1''
       \<lparr>postback = None, msg_text = Some ''next''\<rparr>
       \<lparr>userSessions = [(''u1'', exampleSession ''A'' 1000 20)], sent = []\<rparr>
     = (Some MessengerApiError,
        \<lparr>userSessions = [(''u1'', exampleSession ''A'' 1000 20)],
         sent = [(''u1'', TextMessage (''You'' @ [CHR 0x27] @
                    ''re sending messages too quickly. Please wait a moment before trying again.'')
                    None),
                 (''u1'', TextMessage ''Sorry, I encountered an error. Please try again.''
                    None)]\<rparr>)"
  by code_simp

text \<open>
  C5, amended: when \<^verbatim>\<open>checkRateLimit\<close> answers false, \<^verbatim>\<open>handleMessage\<close> stops right after
  the session lookup: it sends no mark-seen, typing-on, typing-off or node template and
  leaves the session registry as it was (current node, message count and last
  interaction unchanged). It dispatches the rate-limit notice, and nothing else when that
  dispatch succeeds; when it fails, the generic error notice is dispatched too and the
  error is thrown to the caller.
\<close>

theorem rate_limited_event:
  assumes "getUserSession flow tCreate senderId (userSessions st) = Inr (session0, us)"
    and "checkRateLimit tCheck session0 = (False, session)"
  shows "handleMessage toLowerCase flow net tCreate tCheck tTouch senderId message st =
           (if senderId \<noteq> [] \<and> net (length (sent st))
            then (None, st\<lparr>sent := sent st @ [(senderId, templateMessage rateLimitNotice)]\<rparr>)
            else (Some (if senderId = [] then RecipientRequired else MessengerApiError),
                  st\<lparr>sent := sent st @ [(senderId, templateMessage rateLimitNotice),
                                          (senderId, templateMessage errorNotice)]\<rparr>))
         \<and> map_of (userSessions st) senderId = Some session0"
proof -
  from getUserSession_rejected [OF assms]
  have us: "us = userSessions st" and s0: "map_of (userSessions st) senderId = Some session0"
    by simp_all
  from checkRateLimit_rejects [OF assms(2)] have s: "session = session0" by simp
  have upd: "AList.update senderId session0 (userSessions st) = userSessions st"
    using s0 by (rule AList.update_triv)
  have body: "handleBody toLowerCase flow net tCreate tCheck tTouch senderId message st =
      (case sendMessage net senderId (templateMessage rateLimitNotice) (sent st) of
         (r, out) \<Rightarrow> (r, st\<lparr>sent := out\<rparr>))"
    using assms by (simp add: handleBody_def us s upd sendTemplate_def split: prod.splits)
  show ?thesis
    using s0 by (simp add: handleMessage_def body sendTemplate_def sendMessage_def)
qed

theorem rate_limited_event_witness:
  "handleMessage asciiToLowerCase exampleFlow alwaysDelivered 0 1000 2000 ''u1''
       \<lparr>postback = None, msg_text = Some ''next''\<rparr>
       \<lparr>userSessions = [(''u1'', exampleSession ''A'' 1000 20)], sent = []\<rparr>
     = (None,
        \<lparr>userSessions = [(''u1'', exampleSession ''A'' 1000 20)],
         sent = [(''u1'', TextMessage (''You'' @ [CHR 0x27] @
                    ''re sending messages too quickly. Please wait a moment before trying again.'')
                    None)]\<rparr>)"
proof -
  have g: "getUserSession exampleFlow 0 ''u1''
             (userSessions \<lparr>userSessions = [(''u1'', exampleSession ''A'' 1000 20)], sent = []\<rparr>)
           = Inr (exampleSession ''A'' 1000 20, [(''u1'', exampleSession ''A'' 1000 20)])"
    by (simp add: getUserSession_def)
  have c: "checkRateLimit 1000 (exampleSession ''A'' 1000 20) = (False, exampleSession ''A'' 1000 20)"
    by code_simp
  show ?thesis
    using rate_limited_event
      [OF g c, where net = alwaysDelivered and tTouch = 2000
         and toLowerCase = asciiToLowerCase
         and message = "\<lparr>postback = None, msg_text = Some ''next''\<rparr>"]
    by (simp add: templateMessage_rateLimitNotice alwaysDelivered_def)
qed

section \<open>Conversation Engine: events that dispatch no template\<close>

text \<open>
  C6: when the resolved target id names no node of the flow, \<^verbatim>\<open>handleMessage\<close> dispatches
  no template and leaves the current node of the session unchanged; mark-seen and
  typing-on have been sent, the session is touched, and typing-off is still sent at the
  end.
\<close>

theorem unknown_target_is_ignored:
  assumes "getUserSession flow tCreate senderId (userSessions st) = Inr (session0, us)"
    and "checkRateLimit tCheck session0 = (True, session)"
    and "resolveNextNodeId toLowerCase flow session message = Inr (Some target)"
    and "findNodeById flow target = None"
  shows "handleMessage toLowerCase flow net tCreate tCheck tTouch senderId message st =
           (None,
            \<lparr>userSessions =
               AList.update senderId
                 (session\<lparr>lastInteraction := tTouch, messageCount := messageCount session + 1\<rparr>) us,
             sent = sent st @ [(senderId, SenderAction ''mark_seen''),
                               (senderId, SenderAction ''typing_on''),
                               (senderId, SenderAction ''typing_off'')]\<rparr>)
         \<and> currentNode session = currentNode session0"
proof -
  have d: "dispatchNode flow net senderId (Some target) session out = (None, session, out)" for out
    using assms(4) by (simp add: dispatchNode_def)
  show ?thesis
    using checkRateLimit_currentNode [OF assms(2)]
    by (simp add: handleMessage_def handleBody_allowed [OF assms(1,2)] assms(3) d
        updateSessionActivity_def)
qed


theorem unknown_target_is_ignored_witness:
  "handleMessage asciiToLowerCase \<lparr>messages = [exampleNodeA], edges = [\<lparr>edge_source = ''b1'', edge_target = ''B''\<rparr>]\<rparr>
       alwaysDelivered 0 1000 2000 ''u1''
       \<lparr>postback = Some ''b1'', msg_text = None\<rparr>
       \<lparr>userSessions = [(''u1'', exampleSession ''A'' 0 3)], sent = []\<rparr>
     = (None,
        \<lparr>userSessions = [(''u1'', exampleSession ''A'' 2000 4)],
         sent = [(''u1'', SenderAction ''mark_seen''), (''u1'', SenderAction ''typing_on''),
                 (''u1'', SenderAction ''typing_off'')]\<rparr>)"
proof -
  have g: "getUserSession \<lparr>messages = [exampleNodeA], edges = [\<lparr>edge_source = ''b1'', edge_target = ''B''\<rparr>]\<rparr>
             0 ''u1''
             (userSessions \<lparr>userSessions = [(''u1'', exampleSession ''A'' 0 3)], sent = []\<rparr>)
           = Inr (exampleSession ''A'' 0 3, [(''u1'', exampleSession ''A'' 0 3)])"
    by (simp add: getUserSession_def)
  have c: "checkRateLimit 1000 (exampleSession ''A'' 0 3) = (True, exampleSession ''A'' 0 3)"
    by code_simp
  have r: "resolveNextNodeId asciiToLowerCase
             \<lparr>messages = [exampleNodeA], edges = [\<lparr>edge_source = ''b1'', edge_target = ''B''\<rparr>]\<rparr>
             (exampleSession ''A'' 0 3) \<lparr>postback = Some ''b1'', msg_text = None\<rparr>
           = Inr (Some ''B'')"
    by code_simp
  have f: "findNodeById
             \<lparr>messages = [exampleNodeA], edges = [\<lparr>edge_source = ''b1'', edge_target = ''B''\<rparr>]\<rparr>
             ''B'' = None"
    by code_simp
  show ?thesis
    using unknown_target_is_ignored [OF g c r f, where net = alwaysDelivered and tTouch = 2000]
    by (simp add: exampleSession_def)
qed

text \<open>
  C10: an event that passed the rate check and carries neither a postback nor a text
  dispatches no template and leaves the current node unchanged; mark-seen, typing-on and
  typing-off are sent, and the session is touched: its last interaction is the time of
  the touch and its message count is one more.
\<close>

theorem event_without_postback_or_text:
  assumes "getUserSession flow tCreate senderId (userSessions st) = Inr (session0, us)"
    and "checkRateLimit tCheck session0 = (True, session)"
    and "postback message = None"
    and "\<not> truthy (msg_text message)"
  shows "handleMessage toLowerCase flow net tCreate tCheck tTouch senderId message st =
           (None,
            \<lparr>userSessions =
               AList.update senderId
                 (session\<lparr>lastInteraction := tTouch, messageCount := messageCount session + 1\<rparr>) us,
             sent = sent st @ [(senderId, SenderAction ''mark_seen''),
                               (senderId, SenderAction ''typing_on''),
                               (senderId, SenderAction ''typing_off'')]\<rparr>)
         \<and> currentNode session = currentNode session0"
proof -
  have r: "resolveNextNodeId toLowerCase flow session message = Inr None"
    using assms(3,4) by (simp add: resolveNextNodeId_def)
  have d: "dispatchNode flow net senderId None session out = (None, session, out)" for out
    by (simp add: dispatchNode_def truthy_def)
  show ?thesis
    using checkRateLimit_currentNode [OF assms(2)]
    by (simp add: handleMessage_def handleBody_allowed [OF assms(1,2)] r d
        updateSessionActivity_def)
qed

theorem event_without_postback_or_text_witness:
  "handleMessage asciiToLowerCase exampleFlow alwaysDelivered 0 1000 2000 ''u1''
       \<lparr>postback = None, msg_text = None\<rparr>
       \<lparr>userSessions = [(''u1'', exampleSession ''B'' 0 3)], sent = []\<rparr>
     = (None,
        \<lparr>userSessions = [(''u1'', exampleSession ''B'' 2000 4)],
         sent = [(''u1'', SenderAction ''mark_seen''), (''u1'', SenderAction ''typing_on''),
                 (''u1'', SenderAction ''typing_off'')]\<rparr>)"
proof -
  have g: "getUserSession exampleFlow 0 ''u1''
             (userSessions \<lparr>userSessions = [(''u1'', exampleSession ''B'' 0 3)], sent = []\<rparr>)
           = Inr (exampleSession ''B'' 0 3, [(''u1'', exampleSession ''B'' 0 3)])"
    by (simp add: getUserSession_def)
  have c: "checkRateLimit 1000 (exampleSession ''B'' 0 3) = (True, exampleSession ''B'' 0 3)"
    by code_simp
  show ?thesis
    using event_without_postback_or_text
      [OF g c, where net = alwaysDelivered and tTouch = 2000
         and toLowerCase = asciiToLowerCase
         and message = "\<lparr>postback = None, msg_text = None\<rparr>"]
    by (simp add: exampleSession_def truthy_def)
qed

end
